theory Spec2Isabelle
  imports Main "HOL-Library.Finite_Map"
begin

section \<open>Data model of \<^verbatim>\<open>t5x/train_state.py\<close>\<close>

text \<open>
  A pytree of the source is either a leaf (an array, a scalar, an axis label: any Python
  value that is not a mapping) or a mapping from string keys to pytrees. \<^verbatim>\<open>dict\<close> and
  \<^verbatim>\<open>FrozenDict\<close> hold the same keys and values and compare equal regardless of insertion
  order, so both are finite maps; they differ in mutability only, which a value model does
  not see.
\<close>

datatype 'a pytree = Leaf 'a | Dict "(string, 'a pytree) fmap"

type_synonym 'a pydict = "(string, 'a pytree) fmap"

text \<open>
  The exceptions the source raises itself (\<^verbatim>\<open>ValueError\<close>, lines 107 and 159), the ones
  its dictionary accesses raise (\<^verbatim>\<open>KeyError\<close>, \<^verbatim>\<open>TypeError\<close>), and whatever a collaborator
  raises, each with its message or key.
\<close>

datatype error = ValueError string | KeyError string | TypeError string

definition bind_result :: "error + 'x \<Rightarrow> ('x \<Rightarrow> error + 'y) \<Rightarrow> error + 'y" where
  "bind_result r f = (case r of Inl e \<Rightarrow> Inl e | Inr x \<Rightarrow> f x)"

text \<open>Line 29: \<^verbatim>\<open>EMPTY_DICT = flax.core.freeze({})\<close>.\<close>

definition EMPTY_DICT :: "'a pydict" where
  "EMPTY_DICT = fmempty"

text \<open>
  \<^verbatim>\<open>flax.core.unfreeze\<close> turns a \<^verbatim>\<open>FrozenDict\<close> into the plain \<^verbatim>\<open>dict\<close> stored as a value of
  the state dict; \<^verbatim>\<open>flax.core.freeze\<close> is \<^verbatim>\<open>FrozenDict(xs)\<close>, which copies a mapping and
  raises a \<^verbatim>\<open>TypeError\<close> on a value that is not one.
\<close>

definition unfreeze :: "'a pydict \<Rightarrow> 'a pytree" where
  "unfreeze m = Dict m"

definition freeze :: "'a pytree \<Rightarrow> error + 'a pydict" where
  "freeze v = (case v of
     Dict m \<Rightarrow> Inr m
   | Leaf _ \<Rightarrow> Inl (TypeError ''freeze: not a mapping''))"

text \<open>
  \<^verbatim>\<open>FrozenDict.pop(key)\<close>: the pair of the mapping without the key and the value removed;
  \<^verbatim>\<open>KeyError\<close> when the key is absent.
\<close>

definition pop :: "'a pydict \<Rightarrow> string \<Rightarrow> error + ('a pydict \<times> 'a pytree)" where
  "pop m k = (case fmlookup m k of
     None \<Rightarrow> Inl (KeyError k)
   | Some v \<Rightarrow> Inr (fmdrop k m, v))"

subsection \<open>The collaborators\<close>

text \<open>
  \<^verbatim>\<open>flax.optim.Optimizer\<close>, \<^verbatim>\<open>flax.optim.OptimizerDef\<close> and
  \<^verbatim>\<open>flax.linen.partitioning.get_axis_names\<close> are imported, not defined, by the source. The
  optimizer value is a value of an arbitrary type \<open>'o\<close>, the optimizer definition one of an
  arbitrary type \<open>'d\<close>, and the record below holds what the source calls on them. A method
  that does work returns \<open>error + _\<close>, since any of them may raise. A method the source
  looks for with \<^verbatim>\<open>hasattr\<close> is an \<open>option\<close>: \<open>None\<close> when the object does not have it.
  \<^verbatim>\<open>set_param_axes\<close> mutates the definition in place; here it returns the mutated one.
\<close>

record ('a, 'o, 'd) flax_api =
  o_step :: "'o \<Rightarrow> 'a"
  o_target :: "'o \<Rightarrow> 'a pytree"
  o_param_states :: "'o \<Rightarrow> 'a pytree"
  o_optimizer_def :: "'o \<Rightarrow> 'd"
  o_state_dict :: "'o \<Rightarrow> 'a pydict"
  o_restore_state :: "'o \<Rightarrow> 'a pydict \<Rightarrow> error + 'o"
  o_apply_gradient :: "'o \<Rightarrow> 'a pytree \<Rightarrow> 'a \<Rightarrow> error + 'o"
  o_replace_target :: "'o \<Rightarrow> 'a pytree \<Rightarrow> 'o"
  od_class_name :: "'d \<Rightarrow> string"
  od_create :: "'d \<Rightarrow> 'a pytree \<Rightarrow> error + 'o"
  od_set_param_axes :: "'d \<Rightarrow> ('a pytree \<Rightarrow> error + 'd) option"
  od_derive_logical_axes :: "'d \<Rightarrow> ('o \<Rightarrow> 'a pytree \<Rightarrow> error + 'o) option"
  get_axis_names :: "'a pytree option \<Rightarrow> error + 'a pytree"

subsection \<open>\<^verbatim>\<open>FlaxOptimTrainState\<close>\<close>

text \<open>
  Lines 85 to 91. The field \<^verbatim>\<open>_optimizer\<close> is named \<open>optimizer\<close> (an identifier cannot
  start with an underscore). \<^verbatim>\<open>params_axes\<close> is \<^verbatim>\<open>Optional\<close>: \<open>None\<close> is its absence.
\<close>

record ('a, 'o) FlaxOptimTrainState =
  optimizer :: 'o
  params_axes :: "'a pytree option"
  flax_mutables :: "'a pydict"

section \<open>Operations\<close>

text \<open>Lines 93 to 114.\<close>

definition create ::
  "('a, 'o, 'd) flax_api \<Rightarrow> 'd \<Rightarrow> 'a pydict \<Rightarrow> error + ('a, 'o) FlaxOptimTrainState" where
  "create api optimizer_def model_variables =
     bind_result (pop model_variables ''params'') (\<lambda>(other_variables, params).
     bind_result
       (if ''params_axes'' |\<in>| fmdom other_variables
        then bind_result (pop other_variables ''params_axes'') (\<lambda>(fm, ax). Inr (fm, Some ax))
        else Inr (other_variables, None)) (\<lambda>(mutables, axes).
     bind_result
       (case od_set_param_axes api optimizer_def of
          Some set_param_axes \<Rightarrow>
            (if axes = None
             then Inl (ValueError (''The optimizer supports params_axes for model-based ''
                                   @ ''partitioning, but the model is not emitting them.''))
             else bind_result (get_axis_names api axes) set_param_axes)
        | None \<Rightarrow> Inr optimizer_def) (\<lambda>optimizer_def'.
     bind_result (od_create api optimizer_def' params) (\<lambda>new_optimizer.
     Inr \<lparr>optimizer = new_optimizer, params_axes = axes, flax_mutables = mutables\<rparr>))))"

text \<open>Lines 116 to 126: the three properties read the optimizer value.\<close>

definition step :: "('a, 'o, 'd) flax_api \<Rightarrow> ('a, 'o) FlaxOptimTrainState \<Rightarrow> 'a" where
  "step api self = o_step api (optimizer self)"

definition params :: "('a, 'o, 'd) flax_api \<Rightarrow> ('a, 'o) FlaxOptimTrainState \<Rightarrow> 'a pytree" where
  "params api self = o_target api (optimizer self)"

definition param_states ::
  "('a, 'o, 'd) flax_api \<Rightarrow> ('a, 'o) FlaxOptimTrainState \<Rightarrow> 'a pytree" where
  "param_states api self = o_param_states api (optimizer self)"

text \<open>
  Lines 128 to 132. \<^verbatim>\<open>if self.flax_mutables\<close> is the truth value of a mapping: true when
  it has at least one key.
\<close>

definition state_dict :: "('a, 'o, 'd) flax_api \<Rightarrow> ('a, 'o) FlaxOptimTrainState \<Rightarrow> 'a pydict" where
  "state_dict api self =
     (let sd = o_state_dict api (optimizer self)
      in if flax_mutables self \<noteq> fmempty
         then fmupd ''flax_mutables'' (unfreeze (flax_mutables self)) sd
         else sd)"

text \<open>
  Lines 134 to 140. The keyword argument \<^verbatim>\<open>flax_mutables=EMPTY_DICT\<close> is an \<open>option\<close>:
  \<open>None\<close> when the caller omits it.
\<close>

definition apply_gradient ::
  "('a, 'o, 'd) flax_api \<Rightarrow> ('a, 'o) FlaxOptimTrainState \<Rightarrow> 'a pytree \<Rightarrow> 'a \<Rightarrow>
   'a pydict option \<Rightarrow> error + ('a, 'o) FlaxOptimTrainState" where
  "apply_gradient api self grads learning_rate mutables_arg =
     bind_result (o_apply_gradient api (optimizer self) grads learning_rate) (\<lambda>new_optimizer.
     Inr (self\<lparr>optimizer := new_optimizer,
               flax_mutables := (case mutables_arg of None \<Rightarrow> EMPTY_DICT | Some m \<Rightarrow> m)\<rparr>))"

text \<open>Lines 142 and 143.\<close>

definition replace_params ::
  "('a, 'o, 'd) flax_api \<Rightarrow> ('a, 'o) FlaxOptimTrainState \<Rightarrow> 'a pytree \<Rightarrow>
   ('a, 'o) FlaxOptimTrainState" where
  "replace_params api self new_params =
     self\<lparr>optimizer := o_replace_target api (optimizer self) new_params\<rparr>"

text \<open>
  Lines 150 to 155. The optimizer value restores first; the conditional expression then
  reads the key \<^verbatim>\<open>'flax_mutables'\<close> when the dict has it.
\<close>

definition restore_state ::
  "('a, 'o, 'd) flax_api \<Rightarrow> ('a, 'o) FlaxOptimTrainState \<Rightarrow> 'a pydict \<Rightarrow>
   error + ('a, 'o) FlaxOptimTrainState" where
  "restore_state api self sd =
     bind_result (o_restore_state api (optimizer self) sd) (\<lambda>new_optimizer.
     bind_result
       (case fmlookup sd ''flax_mutables'' of
          Some v \<Rightarrow> freeze v
        | None \<Rightarrow> Inr EMPTY_DICT) (\<lambda>mutables.
     Inr (self\<lparr>optimizer := new_optimizer, flax_mutables := mutables\<rparr>)))"

text \<open>
  Lines 145 to 148. \<^verbatim>\<open>state_dict['state']['step'] = step\<close> raises \<^verbatim>\<open>KeyError\<close> when the
  dict has no \<^verbatim>\<open>'state'\<close> entry and \<^verbatim>\<open>TypeError\<close> when that entry is not a mapping.
\<close>

definition replace_step ::
  "('a, 'o, 'd) flax_api \<Rightarrow> ('a, 'o) FlaxOptimTrainState \<Rightarrow> 'a \<Rightarrow>
   error + ('a, 'o) FlaxOptimTrainState" where
  "replace_step api self new_step =
     (let sd = state_dict api self
      in case fmlookup sd ''state'' of
           None \<Rightarrow> Inl (KeyError ''state'')
         | Some (Leaf _) \<Rightarrow> Inl (TypeError ''item assignment'')
         | Some (Dict st) \<Rightarrow>
             restore_state api self
               (fmupd ''state'' (Dict (fmupd ''step'' (Leaf new_step) st)) sd))"

text \<open>
  Lines 157 to 166. The constructor call gives no \<^verbatim>\<open>params_axes\<close> and no
  \<^verbatim>\<open>flax_mutables\<close>, so both take the defaults of lines 89 and 91.
\<close>

definition as_logical_axes ::
  "('a, 'o, 'd) flax_api \<Rightarrow> ('a, 'o) FlaxOptimTrainState \<Rightarrow>
   error + ('a, 'o) FlaxOptimTrainState" where
  "as_logical_axes api self =
     (let optimizer_def = o_optimizer_def api (optimizer self)
      in case od_derive_logical_axes api optimizer_def of
           None \<Rightarrow>
             Inl (ValueError (''Optimizer '' @ [CHR 0x27] @ od_class_name api optimizer_def
                              @ [CHR 0x27] @ '' requires a `derive_logical_axes` method to be ''
                              @ ''used with named axis partitioning.''))
         | Some derive_logical_axes \<Rightarrow>
             bind_result (get_axis_names api (params_axes self)) (\<lambda>axis_names.
             bind_result (derive_logical_axes (optimizer self) axis_names) (\<lambda>new_optimizer.
             Inr \<lparr>optimizer = new_optimizer, params_axes = None,
                  flax_mutables = EMPTY_DICT\<rparr>)))"

section \<open>Contracts of the optimizer value\<close>



text \<open>
  The snapshot of the optimizer value keeps its step in the mapping under \<^verbatim>\<open>'state'\<close>
  (the persisted layout), and a snapshot whose \<^verbatim>\<open>'step'\<close> entry was overwritten restores
  to that step with the target and the parameter states as they were.
\<close>

definition optimizer_step_restore :: "('a, 'o, 'd) flax_api \<Rightarrow> 'o \<Rightarrow> bool" where
  "optimizer_step_restore api opt \<longleftrightarrow>
     fmlookup (o_state_dict api opt) ''flax_mutables'' = None \<and>
     (\<exists>st. fmlookup (o_state_dict api opt) ''state'' = Some (Dict st)) \<and>
     (\<forall>sd st n.
        fmlookup (o_state_dict api opt) ''state'' = Some (Dict st) \<and>
        fmdrop ''flax_mutables'' sd =
          fmupd ''state'' (Dict (fmupd ''step'' (Leaf n) st)) (o_state_dict api opt) \<longrightarrow>
        (\<exists>opt'. o_restore_state api opt sd = Inr opt' \<and>
                o_step api opt' = n \<and>
                o_target api opt' = o_target api opt \<and>
                o_param_states api opt' = o_param_states api opt))"



section \<open>\<^verbatim>\<open>replace_step\<close> in terms of the two serialisation primitives\<close>

text \<open>
  The spec's description of \<^verbatim>\<open>replace_step\<close>: take the state's own snapshot, overwrite its
  step entry, restore from the result.
\<close>

definition overwrite_step :: "'a pydict \<Rightarrow> 'a \<Rightarrow> error + 'a pydict" where
  "overwrite_step sd n =
     (case fmlookup sd ''state'' of
        None \<Rightarrow> Inl (KeyError ''state'')
      | Some (Leaf _) \<Rightarrow> Inl (TypeError ''item assignment'')
      | Some (Dict st) \<Rightarrow> Inr (fmupd ''state'' (Dict (fmupd ''step'' (Leaf n) st)) sd))"

definition replace_step_spec ::
  "('a, 'o, 'd) flax_api \<Rightarrow> ('a, 'o) FlaxOptimTrainState \<Rightarrow> 'a \<Rightarrow>
   error + ('a, 'o) FlaxOptimTrainState" where
  "replace_step_spec api self n =
     bind_result (overwrite_step (state_dict api self) n) (restore_state api self)"

section \<open>A reference optimizer\<close>

text \<open>
  A small implementation of the collaborators, with integer leaves, on which the theorems
  are exercised: an optimizer definition that may or may not have the two optional
  methods, and an optimizer value holding the definition, the step, the parameter states
  and the target. Its snapshot has the persisted layout
  \<^verbatim>\<open>{'target': ..., 'state': {'step': ..., 'param_states': ...}}\<close>; its update rule is
  gradient descent on a single leaf.
\<close>

record ref_optimizer_def =
  rd_name :: string
  rd_has_set_param_axes :: bool
  rd_has_derive_logical_axes :: bool
  rd_axes :: "int pytree option"

record ref_optimizer =
  ro_def :: ref_optimizer_def
  ro_step :: int
  ro_param_states :: "int pytree"
  ro_target :: "int pytree"

definition ref_state_dict :: "ref_optimizer \<Rightarrow> int pydict" where
  "ref_state_dict opt =
     fmupd ''target'' (ro_target opt)
       (fmupd ''state''
          (Dict (fmupd ''step'' (Leaf (ro_step opt))
                   (fmupd ''param_states'' (ro_param_states opt) fmempty)))
          fmempty)"

definition ref_restore_state :: "ref_optimizer \<Rightarrow> int pydict \<Rightarrow> error + ref_optimizer" where
  "ref_restore_state opt sd =
     (case fmlookup sd ''target'' of
        None \<Rightarrow> Inl (KeyError ''target'')
      | Some t \<Rightarrow>
          (case fmlookup sd ''state'' of
             None \<Rightarrow> Inl (KeyError ''state'')
           | Some (Leaf _) \<Rightarrow> Inl (TypeError ''state'')
           | Some (Dict st) \<Rightarrow>
               (case fmlookup st ''step'' of
                  None \<Rightarrow> Inl (ValueError ''Missing field step'')
                | Some (Dict _) \<Rightarrow> Inl (TypeError ''step'')
                | Some (Leaf n) \<Rightarrow>
                    (case fmlookup st ''param_states'' of
                       None \<Rightarrow> Inl (ValueError ''Missing field param_states'')
                     | Some ps \<Rightarrow>
                         Inr (opt\<lparr>ro_step := n, ro_param_states := ps, ro_target := t\<rparr>)))))"

definition ref_apply_gradient ::
  "ref_optimizer \<Rightarrow> int pytree \<Rightarrow> int \<Rightarrow> error + ref_optimizer" where
  "ref_apply_gradient opt grads learning_rate =
     (case (ro_target opt, grads) of
        (Leaf w, Leaf g) \<Rightarrow>
          Inr (opt\<lparr>ro_step := ro_step opt + 1, ro_target := Leaf (w - learning_rate * g)\<rparr>)
      | _ \<Rightarrow> Inl (TypeError ''tree structure''))"

definition ref_create :: "ref_optimizer_def \<Rightarrow> int pytree \<Rightarrow> error + ref_optimizer" where
  "ref_create d ps =
     Inr \<lparr>ro_def = d, ro_step = 0, ro_param_states = Dict fmempty, ro_target = ps\<rparr>"

definition ref_set_param_axes ::
  "ref_optimizer_def \<Rightarrow> (int pytree \<Rightarrow> error + ref_optimizer_def) option" where
  "ref_set_param_axes d =
     (if rd_has_set_param_axes d then Some (\<lambda>names. Inr (d\<lparr>rd_axes := Some names\<rparr>))
      else None)"

definition ref_derive_logical_axes ::
  "ref_optimizer_def \<Rightarrow> (ref_optimizer \<Rightarrow> int pytree \<Rightarrow> error + ref_optimizer) option" where
  "ref_derive_logical_axes d =
     (if rd_has_derive_logical_axes d
      then Some (\<lambda>opt names. Inr (opt\<lparr>ro_param_states := names, ro_target := names\<rparr>))
      else None)"

definition ref_get_axis_names :: "int pytree option \<Rightarrow> error + int pytree" where
  "ref_get_axis_names axes =
     (case axes of
        None \<Rightarrow> Inl (TypeError ''expected (frozen)dict'')
      | Some t \<Rightarrow> Inr t)"

definition ref_api :: "(int, ref_optimizer, ref_optimizer_def) flax_api" where
  "ref_api =
     \<lparr>o_step = ro_step,
      o_target = ro_target,
      o_param_states = ro_param_states,
      o_optimizer_def = ro_def,
      o_state_dict = ref_state_dict,
      o_restore_state = ref_restore_state,
      o_apply_gradient = ref_apply_gradient,
      o_replace_target = (\<lambda>opt t. opt\<lparr>ro_target := t\<rparr>),
      od_class_name = rd_name,
      od_create = ref_create,
      od_set_param_axes = ref_set_param_axes,
      od_derive_logical_axes = ref_derive_logical_axes,
      get_axis_names = ref_get_axis_names\<rparr>"

text \<open>Two optimizer definitions: one with neither optional method, one with both.\<close>

definition plain_def :: ref_optimizer_def where
  "plain_def =
     \<lparr>rd_name = ''Sgd'', rd_has_set_param_axes = False,
      rd_has_derive_logical_axes = False, rd_axes = None\<rparr>"

definition axes_def :: ref_optimizer_def where
  "axes_def =
     \<lparr>rd_name = ''Adafactor'', rd_has_set_param_axes = True,
      rd_has_derive_logical_axes = True, rd_axes = None\<rparr>"

definition example_optimizer :: "ref_optimizer_def \<Rightarrow> ref_optimizer" where
  "example_optimizer d =
     \<lparr>ro_def = d, ro_step = 7, ro_param_states = Leaf 0, ro_target = Leaf 10\<rparr>"

definition example_mutables :: "int pydict" where
  "example_mutables = fmupd ''a'' (Leaf 1) fmempty"

definition example_state ::
  "ref_optimizer_def \<Rightarrow> int pydict \<Rightarrow> (int, ref_optimizer) FlaxOptimTrainState" where
  "example_state d m =
     \<lparr>optimizer = example_optimizer d, params_axes = Some (Leaf 5), flax_mutables = m\<rparr>"

definition other_mutables :: "int pydict" where
  "other_mutables = fmupd ''b'' (Leaf 2) fmempty"

text \<open>The example optimizer after one step on the gradient 2 with learning rate 3.\<close>

definition stepped_optimizer :: "ref_optimizer_def \<Rightarrow> ref_optimizer" where
  "stepped_optimizer d =
     \<lparr>ro_def = d, ro_step = 8, ro_param_states = Leaf 0, ro_target = Leaf 4\<rparr>"

text \<open>
  A complete snapshot without the key \<^verbatim>\<open>'flax_mutables'\<close>, the same snapshot with a
  foreign entry \<^verbatim>\<open>'params_axes'\<close> beside it, and a snapshot without the step.
\<close>

definition complete_snapshot :: "int pydict" where
  "complete_snapshot =
     fmupd ''target'' (Leaf 3)
       (fmupd ''state''
          (Dict (fmupd ''step'' (Leaf 9) (fmupd ''param_states'' (Leaf 1) fmempty)))
          fmempty)"

definition snapshot_with_axes :: "int pydict" where
  "snapshot_with_axes = fmupd ''params_axes'' (Leaf 99) complete_snapshot"

definition snapshot_without_step :: "int pydict" where
  "snapshot_without_step =
     fmupd ''target'' (Leaf 3)
       (fmupd ''state'' (Dict (fmupd ''param_states'' (Leaf 1) fmempty)) fmempty)"

definition restored_optimizer :: "ref_optimizer_def \<Rightarrow> ref_optimizer" where
  "restored_optimizer d =
     \<lparr>ro_def = d, ro_step = 9, ro_param_states = Leaf 1, ro_target = Leaf 3\<rparr>"

text \<open>Model variables with parameters and one mutable collection, without axes.\<close>

definition variables_without_axes :: "int pydict" where
  "variables_without_axes =
     fmupd ''params'' (Leaf 1) (fmupd ''batch_stats'' (Leaf 0) fmempty)"

text \<open>The example optimizer projected onto the axis names read from the axis label 5.\<close>

definition projected_optimizer :: "ref_optimizer_def \<Rightarrow> ref_optimizer" where
  "projected_optimizer d =
     \<lparr>ro_def = d, ro_step = 7, ro_param_states = Leaf 5, ro_target = Leaf 5\<rparr>"

section \<open>Auxiliary facts\<close>

lemma bind_result_Inr_iff:
  "bind_result r f = Inr y \<longleftrightarrow> (\<exists>x. r = Inr x \<and> f x = Inr y)"
  by (cases r) (simp_all add: bind_result_def)

lemma bind_result_simps:
  "bind_result (Inl e) f = Inl e"
  "bind_result (Inr x) f = f x"
  by (simp_all add: bind_result_def)

lemma fmdrop_absent: "fmlookup m k = None \<Longrightarrow> fmdrop k m = m"
  by (simp add: fmdrop_idle fmdom_notI)

lemma fmdrop_fmupd_absent: "fmlookup m k = None \<Longrightarrow> fmdrop k (fmupd k v m) = m"
  by (simp add: fmdrop_fmupd_same fmdrop_absent)

lemma lookup_through_drop:
  "fmdrop k sd = d \<Longrightarrow> k' \<noteq> k \<Longrightarrow> fmlookup sd k' = fmlookup d k'"
  by (metis fmlookup_drop)

text \<open>
  What \<^verbatim>\<open>state_dict\<close> adds to the optimizer value's snapshot: nothing but the entry
  \<^verbatim>\<open>'flax_mutables'\<close>, and that entry freezes back to the state's mutables (to the empty
  mapping when the entry was left out).
\<close>

lemma state_dict_lookup_other:
  "k \<noteq> ''flax_mutables'' \<Longrightarrow>
   fmlookup (state_dict api self) k = fmlookup (o_state_dict api (optimizer self)) k"
  by (simp add: state_dict_def Let_def)

lemma state_dict_drop:
  "fmlookup (o_state_dict api (optimizer self)) ''flax_mutables'' = None \<Longrightarrow>
   fmdrop ''flax_mutables'' (state_dict api self) = o_state_dict api (optimizer self)"
  by (simp add: state_dict_def Let_def fmdrop_absent fmdrop_fmupd_absent)

lemma state_dict_mutables:
  "fmlookup (o_state_dict api (optimizer self)) ''flax_mutables'' = None \<Longrightarrow>
   (case fmlookup (state_dict api self) ''flax_mutables'' of
      Some v \<Rightarrow> freeze v | None \<Rightarrow> Inr EMPTY_DICT) = Inr (flax_mutables self)"
  by (simp add: state_dict_def Let_def unfreeze_def freeze_def EMPTY_DICT_def)

lemma replace_step_unfold: "replace_step api self n = replace_step_spec api self n"
  by (simp add: replace_step_def replace_step_spec_def overwrite_step_def Let_def
      bind_result_def split: option.splits pytree.splits)

subsection \<open>The reference optimizer keeps the contracts\<close>


lemma ref_optimizer_step_restore: "optimizer_step_restore ref_api opt"
proof -
  have "\<exists>opt'. ref_restore_state opt sd = Inr opt' \<and> ro_step opt' = n \<and>
          ro_target opt' = ro_target opt \<and> ro_param_states opt' = ro_param_states opt"
    if "fmlookup (ref_state_dict opt) ''state'' = Some (Dict st)"
      and "fmdrop ''flax_mutables'' sd =
             fmupd ''state'' (Dict (fmupd ''step'' (Leaf n) st)) (ref_state_dict opt)"
    for sd st n
  proof -
    have "fmlookup sd ''target'' = Some (ro_target opt)"
      and "fmlookup sd ''state'' = Some (Dict (fmupd ''step'' (Leaf n) st))"
      using that(2) by (simp_all add: lookup_through_drop [OF that(2)] ref_state_dict_def)
    moreover from that(1) have "fmlookup st ''param_states'' = Some (ro_param_states opt)"
      by (auto simp: ref_state_dict_def)
    ultimately show ?thesis
      by (simp add: ref_restore_state_def)
  qed
  then show ?thesis
    by (simp add: optimizer_step_restore_def ref_api_def) (simp add: ref_state_dict_def)
qed


lemmas example_defs =
  example_state_def example_optimizer_def example_mutables_def other_mutables_def
  stepped_optimizer_def complete_snapshot_def snapshot_with_axes_def
  snapshot_without_step_def restored_optimizer_def variables_without_axes_def
  projected_optimizer_def plain_def_def axes_def_def

lemmas ref_defs =
  ref_api_def ref_state_dict_def ref_restore_state_def ref_apply_gradient_def
  ref_create_def ref_set_param_axes_def ref_derive_logical_axes_def ref_get_axis_names_def

section \<open>Serialisation round trip\<close>



section \<open>Gradient steps\<close>

text \<open>
  Claim C2. When the optimizer value accepts the gradients and the learning rate and its
  own \<^verbatim>\<open>apply_gradient\<close> returns an optimizer value whose step is one more than before,
  the train state's \<^verbatim>\<open>apply_gradient\<close> returns a state whose step is the old step plus
  one, whatever is passed for the mutables.
\<close>

theorem apply_gradient_increments_step:
  assumes "o_apply_gradient api (optimizer self) grads learning_rate = Inr opt'"
    and "o_step api opt' = o_step api (optimizer self) + 1"
  shows "\<exists>self'. apply_gradient api self grads learning_rate mutables_arg = Inr self' \<and>
           step api self' = step api self + 1"
  using assms by (simp add: apply_gradient_def bind_result_simps step_def)

theorem apply_gradient_increments_step_witness:
  "o_apply_gradient ref_api (optimizer (example_state plain_def example_mutables)) (Leaf 2) 3
     = Inr (stepped_optimizer plain_def) \<and>
   o_step ref_api (stepped_optimizer plain_def)
     = o_step ref_api (optimizer (example_state plain_def example_mutables)) + 1 \<and>
   (\<exists>self'. apply_gradient ref_api (example_state plain_def example_mutables) (Leaf 2) 3 None
              = Inr self' \<and>
      step ref_api self' = 8)"
proof -
  have h1: "o_apply_gradient ref_api (optimizer (example_state plain_def example_mutables))
              (Leaf 2) 3 = Inr (stepped_optimizer plain_def)"
    by (simp add: ref_defs example_defs)
  have h2: "o_step ref_api (stepped_optimizer plain_def)
              = o_step ref_api (optimizer (example_state plain_def example_mutables)) + 1"
    by (simp add: ref_defs example_defs)
  show ?thesis
    using h1 h2 apply_gradient_increments_step [OF h1 h2, of None]
    by (simp add: step_def ref_api_def example_defs)
qed

text \<open>
  Claim C3. A gradient step that the optimizer value accepts returns a state whose
  \<^verbatim>\<open>params_axes\<close> is the one of the state it was applied to, be it a tree or absent,
  for every mutables argument.
\<close>

theorem apply_gradient_keeps_params_axes:
  assumes "o_apply_gradient api (optimizer self) grads learning_rate = Inr opt'"
  shows "\<exists>self'. apply_gradient api self grads learning_rate mutables_arg = Inr self' \<and>
           params_axes self' = params_axes self"
  using assms by (simp add: apply_gradient_def bind_result_simps)

theorem apply_gradient_keeps_params_axes_witness:
  "o_apply_gradient ref_api (optimizer (example_state plain_def example_mutables)) (Leaf 2) 3
     = Inr (stepped_optimizer plain_def) \<and>
   (\<exists>self'. apply_gradient ref_api (example_state plain_def example_mutables) (Leaf 2) 3
              (Some other_mutables) = Inr self' \<and>
      params_axes self' = Some (Leaf 5)) \<and>
   (\<exists>self'. apply_gradient ref_api
              ((example_state plain_def example_mutables)\<lparr>params_axes := None\<rparr>) (Leaf 2) 3
              (Some other_mutables) = Inr self' \<and>
      params_axes self' = None)"
proof -
  have h1: "o_apply_gradient ref_api (optimizer (example_state plain_def example_mutables))
              (Leaf 2) 3 = Inr (stepped_optimizer plain_def)"
    by (simp add: ref_defs example_defs)
  have h2: "o_apply_gradient ref_api
              (optimizer ((example_state plain_def example_mutables)\<lparr>params_axes := None\<rparr>))
              (Leaf 2) 3 = Inr (stepped_optimizer plain_def)"
    by (simp add: ref_defs example_defs)
  show ?thesis
    using h1 apply_gradient_keeps_params_axes [OF h1, of "Some other_mutables"]
      apply_gradient_keeps_params_axes [OF h2, of "Some other_mutables"]
    by (simp add: example_defs)
qed

text \<open>
  Claim C4. A gradient step that the optimizer value accepts returns a state whose Flax
  mutables are exactly the mapping passed as \<^verbatim>\<open>flax_mutables\<close>, with no key of the old
  mutables carried over, and the empty mapping when the argument is omitted.
\<close>

theorem apply_gradient_replaces_flax_mutables:
  assumes "o_apply_gradient api (optimizer self) grads learning_rate = Inr opt'"
  shows "(\<exists>self'. apply_gradient api self grads learning_rate (Some M) = Inr self' \<and>
            flax_mutables self' = M) \<and>
         (\<exists>self'. apply_gradient api self grads learning_rate None = Inr self' \<and>
            flax_mutables self' = fmempty)"
  using assms by (simp add: apply_gradient_def bind_result_simps EMPTY_DICT_def)

theorem apply_gradient_replaces_flax_mutables_witness:
  "o_apply_gradient ref_api (optimizer (example_state plain_def example_mutables)) (Leaf 2) 3
     = Inr (stepped_optimizer plain_def) \<and>
   flax_mutables (example_state plain_def example_mutables) = fmupd ''a'' (Leaf 1) fmempty \<and>
   (\<exists>self'. apply_gradient ref_api (example_state plain_def example_mutables) (Leaf 2) 3
              (Some (fmupd ''b'' (Leaf 2) fmempty)) = Inr self' \<and>
      flax_mutables self' = fmupd ''b'' (Leaf 2) fmempty \<and>
      fmlookup (flax_mutables self') ''a'' = None) \<and>
   (\<exists>self'. apply_gradient ref_api (example_state plain_def example_mutables) (Leaf 2) 3 None
              = Inr self' \<and>
      flax_mutables self' = fmempty)"
proof -
  have h: "o_apply_gradient ref_api (optimizer (example_state plain_def example_mutables))
             (Leaf 2) 3 = Inr (stepped_optimizer plain_def)"
    by (simp add: ref_defs example_defs)
  show ?thesis
    using h apply_gradient_replaces_flax_mutables [OF h, of "fmupd ''b'' (Leaf 2) fmempty"]
    by (auto simp: example_defs)
qed

section \<open>Construction\<close>

text \<open>
  Claim C5. Let the optimizer definition have the method \<^verbatim>\<open>set_param_axes\<close> and let the
  model variables have no \<^verbatim>\<open>'params_axes'\<close> collection beside the parameters. Then
  \<^verbatim>\<open>create\<close> returns no state. When the model variables hold the parameters under
  \<^verbatim>\<open>'params'\<close>, the error is the \<^verbatim>\<open>ValueError\<close> of line 107, the missing axes error, raised
  before any collaborator is called. (Without that entry the split of line 96 has already
  raised a \<^verbatim>\<open>KeyError\<close>.)
\<close>

theorem create_missing_axes:
  assumes "od_set_param_axes api optimizer_def \<noteq> None"
    and "''params_axes'' |\<notin>| fmdom (fmdrop ''params'' model_variables)"
  shows "isl (create api optimizer_def model_variables) \<and>
         (''params'' |\<in>| fmdom model_variables \<longrightarrow>
            create api optimizer_def model_variables =
              Inl (ValueError (''The optimizer supports params_axes for model-based ''
                               @ ''partitioning, but the model is not emitting them.'')))"
proof (cases "fmlookup model_variables ''params''")
  case None
  then show ?thesis
    by (simp add: create_def pop_def bind_result_simps fmlookup_dom_iff)
next
  case (Some ps)
  moreover from assms(1) obtain set_param_axes where
    "od_set_param_axes api optimizer_def = Some set_param_axes"
    by blast
  ultimately show ?thesis
    using assms(2) by (simp add: create_def pop_def bind_result_simps)
qed

theorem create_missing_axes_witness:
  "od_set_param_axes ref_api axes_def \<noteq> None \<and>
   ''params_axes'' |\<notin>| fmdom (fmdrop ''params'' variables_without_axes) \<and>
   ''params'' |\<in>| fmdom variables_without_axes \<and>
   isl (create ref_api axes_def variables_without_axes) \<and>
   create ref_api axes_def variables_without_axes =
     Inl (ValueError (''The optimizer supports params_axes for model-based ''
                      @ ''partitioning, but the model is not emitting them.''))"
proof -
  have h1: "od_set_param_axes ref_api axes_def \<noteq> None"
    by (simp add: ref_defs example_defs)
  have h2: "''params_axes'' |\<notin>| fmdom (fmdrop ''params'' variables_without_axes)"
    by (simp add: example_defs)
  have h3: "''params'' |\<in>| fmdom variables_without_axes"
    by (simp add: example_defs)
  show ?thesis
    using h1 h2 h3 create_missing_axes [OF h1 h2] by simp
qed

section \<open>Axis projection\<close>

text \<open>
  Claim C6. When the optimizer definition of a state has no method
  \<^verbatim>\<open>derive_logical_axes\<close>, \<^verbatim>\<open>as_logical_axes\<close> raises the \<^verbatim>\<open>ValueError\<close> of line 159 (the
  unsupported axes error), whose message names the class of the optimizer definition.
  When the method is there, and the axis names are read from \<^verbatim>\<open>params_axes\<close> and the
  method derives an optimizer value from them, \<^verbatim>\<open>as_logical_axes\<close> returns a state whose
  parameters and optimizer state are those of the derived optimizer value, the axis-name
  trees. The operation is a function of the state: it returns an error or a new state, and
  the state it was called on is the value it was before.
\<close>

theorem as_logical_axes_capability:
  "(od_derive_logical_axes api (o_optimizer_def api (optimizer self)) = None \<longrightarrow>
      as_logical_axes api self =
        Inl (ValueError (''Optimizer '' @ [CHR 0x27]
                         @ od_class_name api (o_optimizer_def api (optimizer self))
                         @ [CHR 0x27] @ '' requires a `derive_logical_axes` method to be ''
                         @ ''used with named axis partitioning.''))) \<and>
   (od_derive_logical_axes api (o_optimizer_def api (optimizer self)) = Some derive \<and>
    get_axis_names api (params_axes self) = Inr axis_names \<and>
    derive (optimizer self) axis_names = Inr opt' \<longrightarrow>
      (\<exists>self'. as_logical_axes api self = Inr self' \<and>
         params api self' = o_target api opt' \<and>
         param_states api self' = o_param_states api opt'))"
  by (simp add: as_logical_axes_def Let_def bind_result_simps params_def param_states_def)

theorem as_logical_axes_capability_witness:
  "od_derive_logical_axes ref_api
     (o_optimizer_def ref_api (optimizer (example_state plain_def example_mutables))) = None \<and>
   as_logical_axes ref_api (example_state plain_def example_mutables) =
     Inl (ValueError (''Optimizer '' @ [CHR 0x27] @ ''Sgd'' @ [CHR 0x27]
                      @ '' requires a `derive_logical_axes` method to be ''
                      @ ''used with named axis partitioning.'')) \<and>
   od_derive_logical_axes ref_api
     (o_optimizer_def ref_api (optimizer (example_state axes_def example_mutables)))
     = Some (\<lambda>opt names. Inr (opt\<lparr>ro_param_states := names, ro_target := names\<rparr>)) \<and>
   get_axis_names ref_api (params_axes (example_state axes_def example_mutables))
     = Inr (Leaf 5) \<and>
   (\<exists>self'. as_logical_axes ref_api (example_state axes_def example_mutables) = Inr self' \<and>
      params ref_api self' = Leaf 5 \<and> param_states ref_api self' = Leaf 5)"
proof -
  let ?derive = "\<lambda>opt names. Inr (opt\<lparr>ro_param_states := names, ro_target := names\<rparr>)"
  have h1: "od_derive_logical_axes ref_api
              (o_optimizer_def ref_api (optimizer (example_state plain_def example_mutables)))
            = None"
    by (simp add: ref_defs example_defs)
  have h2: "od_derive_logical_axes ref_api
              (o_optimizer_def ref_api (optimizer (example_state axes_def example_mutables)))
            = Some ?derive"
    by (simp add: ref_defs example_defs)
  have h3: "get_axis_names ref_api (params_axes (example_state axes_def example_mutables))
            = Inr (Leaf 5)"
    by (simp add: ref_defs example_defs)
  have h4: "?derive (optimizer (example_state axes_def example_mutables)) (Leaf 5)
            = Inr (projected_optimizer axes_def)"
    by (simp add: example_defs)
  show ?thesis
    using h1 h2 h3 h4
      as_logical_axes_capability [of ref_api "example_state plain_def example_mutables"]
      as_logical_axes_capability [of ref_api "example_state axes_def example_mutables"
        ?derive "Leaf 5" "projected_optimizer axes_def"]
    by (simp add: ref_api_def example_defs)
qed

text \<open>
  Claim C10. Every state that \<^verbatim>\<open>as_logical_axes\<close> returns has no \<^verbatim>\<open>params_axes\<close> and
  empty Flax mutables: the constructor call of line 163 passes the optimizer value only, so
  neither field of the projected state comes from the state projected.
\<close>

theorem as_logical_axes_defaults:
  assumes "as_logical_axes api self = Inr self'"
  shows "params_axes self' = None \<and> flax_mutables self' = fmempty"
  using assms
  by (auto simp: as_logical_axes_def Let_def bind_result_Inr_iff EMPTY_DICT_def
      split: option.splits)

theorem as_logical_axes_defaults_witness:
  "params_axes (example_state axes_def example_mutables) = Some (Leaf 5) \<and>
   flax_mutables (example_state axes_def example_mutables) = fmupd ''a'' (Leaf 1) fmempty \<and>
   as_logical_axes ref_api (example_state axes_def example_mutables) =
     Inr \<lparr>optimizer = projected_optimizer axes_def, params_axes = None,
          flax_mutables = fmempty\<rparr> \<and>
   params_axes \<lparr>optimizer = projected_optimizer axes_def, params_axes = None,
                flax_mutables = (fmempty :: int pydict)\<rparr> = None \<and>
   flax_mutables \<lparr>optimizer = projected_optimizer axes_def,
                  params_axes = (None :: int pytree option),
                  flax_mutables = (fmempty :: int pydict)\<rparr> = fmempty"
proof -
  have h: "as_logical_axes ref_api (example_state axes_def example_mutables) =
             Inr \<lparr>optimizer = projected_optimizer axes_def, params_axes = None,
                  flax_mutables = fmempty\<rparr>"
    by (simp add: as_logical_axes_def Let_def bind_result_simps EMPTY_DICT_def
        ref_defs example_defs)
  show ?thesis
    using h as_logical_axes_defaults [OF h] by (simp add: example_defs)
qed

section \<open>Restoring and replacing the step\<close>

text \<open>
  Claim C7. \<^verbatim>\<open>replace_step\<close> is the restore of the state's own snapshot with the step
  entry overwritten: the function of the source and the one written from that
  description agree on every state and step, errors included. When the optimizer value
  keeps the contract of its snapshot layout, the call succeeds and returns a state with
  the new step and with the parameters, the optimizer state and the Flax mutables of the
  old state.
\<close>

theorem replace_step_via_serialization:
  assumes "optimizer_step_restore api (optimizer self)"
  shows "replace_step api self n = replace_step_spec api self n \<and>
         (\<exists>self'. replace_step api self n = Inr self' \<and>
            step api self' = n \<and>
            params api self' = params api self \<and>
            param_states api self' = param_states api self \<and>
            flax_mutables self' = flax_mutables self)"
proof -
  let ?d = "o_state_dict api (optimizer self)"
  let ?sd = "state_dict api self"
  from assms have absent: "fmlookup ?d ''flax_mutables'' = None"
    by (simp add: optimizer_step_restore_def)
  from assms obtain st where st: "fmlookup ?d ''state'' = Some (Dict st)"
    unfolding optimizer_step_restore_def by blast
  let ?sd' = "fmupd ''state'' (Dict (fmupd ''step'' (Leaf n) st)) ?sd"
  have st': "fmlookup ?sd ''state'' = Some (Dict st)"
    using st by (simp add: state_dict_lookup_other)
  have dropped: "fmdrop ''flax_mutables'' ?sd' =
                   fmupd ''state'' (Dict (fmupd ''step'' (Leaf n) st)) ?d"
    by (simp add: fmdrop_fmupd state_dict_drop [OF absent])
  from assms st dropped obtain opt' where
    restored: "o_restore_state api (optimizer self) ?sd' = Inr opt'" and
    data: "o_step api opt' = n" "o_target api opt' = o_target api (optimizer self)"
      "o_param_states api opt' = o_param_states api (optimizer self)"
    unfolding optimizer_step_restore_def by blast
  have "replace_step api self n =
          Inr (self\<lparr>optimizer := opt', flax_mutables := flax_mutables self\<rparr>)"
    by (simp add: replace_step_def Let_def st' restore_state_def restored
        bind_result_simps state_dict_mutables [OF absent])
  with data show ?thesis
    by (simp add: replace_step_unfold [symmetric] step_def params_def param_states_def)
qed

theorem replace_step_via_serialization_witness:
  "optimizer_step_restore ref_api (optimizer (example_state plain_def example_mutables)) \<and>
   replace_step ref_api (example_state plain_def example_mutables) 42 =
     replace_step_spec ref_api (example_state plain_def example_mutables) 42 \<and>
   (\<exists>self'. replace_step ref_api (example_state plain_def example_mutables) 42 = Inr self' \<and>
      step ref_api self' = 42 \<and> params ref_api self' = Leaf 10 \<and>
      param_states ref_api self' = Leaf 0 \<and>
      flax_mutables self' = fmupd ''a'' (Leaf 1) fmempty)"
proof -
  let ?s = "example_state plain_def example_mutables"
  have h: "optimizer_step_restore ref_api (optimizer ?s)"
    by (rule ref_optimizer_step_restore)
  note result = replace_step_via_serialization [OF h, of 42]
  from result have agree: "replace_step ref_api ?s 42 = replace_step_spec ref_api ?s 42"
    by (rule conjunct1)
  from result obtain self' where
    "replace_step ref_api ?s 42 = Inr self'" "step ref_api self' = 42"
    "params ref_api self' = params ref_api ?s"
    "param_states ref_api self' = param_states ref_api ?s"
    "flax_mutables self' = flax_mutables ?s"
    by blast
  moreover have "params ref_api ?s = Leaf 10" "param_states ref_api ?s = Leaf 0"
    "flax_mutables ?s = fmupd ''a'' (Leaf 1) fmempty"
    by (simp_all add: params_def param_states_def ref_api_def example_defs)
  ultimately have "\<exists>self'. replace_step ref_api ?s 42 = Inr self' \<and>
      step ref_api self' = 42 \<and> params ref_api self' = Leaf 10 \<and>
      param_states ref_api self' = Leaf 0 \<and>
      flax_mutables self' = fmupd ''a'' (Leaf 1) fmempty"
    by auto
  with h agree show ?thesis
    by (intro conjI)
qed



text \<open>
  Claim C9. Every state that \<^verbatim>\<open>restore_state\<close> returns has the \<^verbatim>\<open>params_axes\<close> of the
  state it was called on: the field is not among those replaced, so it is neither read
  from the snapshot nor cleared, even when the snapshot has an entry \<^verbatim>\<open>'params_axes'\<close>.
\<close>

theorem restore_state_keeps_params_axes:
  assumes "restore_state api self sd = Inr self'"
  shows "params_axes self' = params_axes self"
  using assms by (auto simp: restore_state_def bind_result_Inr_iff)

theorem restore_state_keeps_params_axes_witness:
  "fmlookup snapshot_with_axes ''params_axes'' = Some (Leaf 99) \<and>
   restore_state ref_api (example_state plain_def example_mutables) snapshot_with_axes =
     Inr \<lparr>optimizer = restored_optimizer plain_def, params_axes = Some (Leaf 5),
          flax_mutables = fmempty\<rparr> \<and>
   params_axes \<lparr>optimizer = restored_optimizer plain_def, params_axes = Some (Leaf 5),
                flax_mutables = (fmempty :: int pydict)\<rparr> =
     params_axes (example_state plain_def example_mutables)"
proof -
  have h: "restore_state ref_api (example_state plain_def example_mutables) snapshot_with_axes =
             Inr \<lparr>optimizer = restored_optimizer plain_def, params_axes = Some (Leaf 5),
                  flax_mutables = fmempty\<rparr>"
    by (simp add: restore_state_def bind_result_simps EMPTY_DICT_def ref_defs example_defs)
  show ?thesis
    using h restore_state_keeps_params_axes [OF h] by (simp add: example_defs)
qed

end
